theory Spec2Isabelle
  imports Complex_Main
begin

section \<open>Conventions of the embedding\<close>

text \<open>
  The theory embeds the forecasting engine (\<^verbatim>\<open>src/services/forecasting.py\<close>) and the
  pricing engine (\<^verbatim>\<open>src/services/pricing_engine.py\<close>) of the revenue management system,
  over the tables of \<^verbatim>\<open>src/models/database.py\<close>.

  \<^item> A Python \<^verbatim>\<open>float\<close> (and a numpy \<^verbatim>\<open>float64\<close>) is a \<^typ>\<open>real\<close>: the arithmetic
    is the exact one, without the rounding of IEEE doubles. Where the source divides a
    numpy float by zero (which yields an infinity or a NaN, not an exception) the case is
    written out.
  \<^item> A \<^verbatim>\<open>date\<close> is its proleptic Gregorian ordinal (\<^verbatim>\<open>date.toordinal()\<close>), an
    \<^typ>\<open>int\<close>; a \<^verbatim>\<open>datetime\<close> is a number of microseconds counted from the start of
    ordinal day 0. A \<^verbatim>\<open>timedelta\<close> of \<open>n\<close> days is the integer \<open>n\<close>.
  \<^item> A table is the list of its rows in the order the queries return them; a nullable
    column that the engines read is an \<^typ>\<open>'a option\<close>.
  \<^item> The clock read by \<^verbatim>\<open>date.today()\<close> and \<^verbatim>\<open>datetime.now()\<close> is a field of the
    session, read once per call.
  \<^item> An exception is a value \<open>Inl e\<close> of a sum type.
\<close>

section \<open>Dates\<close>

type_synonym date = int
type_synonym datetime = int

definition date_of :: "datetime \<Rightarrow> date" where
  "date_of t = t div 86400000000"

definition weekday :: "date \<Rightarrow> int" where
  "weekday d = (d + 6) mod 7"

definition days_in_month :: "int \<Rightarrow> int" where
  "days_in_month m =
     (if m = 2 then 28
      else if m = 4 \<or> m = 6 \<or> m = 9 \<or> m = 11 then 30
      else 31)"

definition days_before_month :: "int \<Rightarrow> int" where
  "days_before_month m =
     (if m = 1 then 0 else if m = 2 then 31 else if m = 3 then 59
      else if m = 4 then 90 else if m = 5 then 120 else if m = 6 then 151
      else if m = 7 then 181 else if m = 8 then 212 else if m = 9 then 243
      else if m = 10 then 273 else if m = 11 then 304 else 334)"

text \<open>The conversion of an ordinal to year, month and day, as the standard library does it.\<close>

definition ord2ymd :: "date \<Rightarrow> int \<times> int \<times> int" where
  "ord2ymd ordinal =
     (let n = ordinal - 1;
          n400 = n div 146097; n = n mod 146097;
          n100 = n div 36524; n = n mod 36524;
          n4 = n div 1461; n = n mod 1461;
          n1 = n div 365; n = n mod 365;
          year = n400 * 400 + 1 + n100 * 100 + n4 * 4 + n1
      in if n1 = 4 \<or> n100 = 4 then (year - 1, 12, 31)
         else
           let leapyear = (n1 = 3 \<and> (n4 \<noteq> 24 \<or> n100 = 3));
               month = (n + 50) div 32;
               preceding = days_before_month month + (if month > 2 \<and> leapyear then 1 else 0)
           in if preceding > n
              then let month' = month - 1;
                       preceding' = preceding
                         - (days_in_month month' + (if month' = 2 \<and> leapyear then 1 else 0))
                   in (year, month', n - preceding' + 1)
              else (year, month, n - preceding + 1))"

definition month :: "date \<Rightarrow> int" where
  "month d = fst (snd (ord2ymd d))"

definition day :: "date \<Rightarrow> int" where
  "day d = snd (snd (ord2ymd d))"

section \<open>The tables\<close>

record RoomType =
  rt_name :: string
  capacity :: int
  base_rate :: real

record Inventory =
  room_id :: int
  inv_room_type :: string

record Booking =
  bk_room_type :: string
  checkin :: date
  checkout :: date
  rate :: real
  channel :: string
  created_at :: "datetime option"

record CompetitorRate =
  cr_date :: date
  competitor_id :: string
  cr_room_type :: string
  cr_rate :: real
  availability :: bool

record EventMultiplier =
  ev_date :: date
  multiplier :: "real option"

record ForecastData =
  fd_date :: date
  fd_room_type :: string
  fd_forecasted_demand :: "real option"
  fd_created_at :: "datetime option"

text \<open>
  The session: the tables, the clock, and the random forest regressor of scikit-learn,
  which is outside this repository. \<open>random_forest\<close> takes the training features, the
  training targets and the features of the target date; \<open>None\<close> stands for an exception
  raised while fitting or predicting.
\<close>

record session =
  room_types :: "RoomType list"
  inventory :: "Inventory list"
  bookings :: "Booking list"
  competitor_rates :: "CompetitorRate list"
  event_multipliers :: "EventMultiplier list"
  forecast_data :: "ForecastData list"
  now :: datetime
  random_forest :: "int list list \<Rightarrow> real list \<Rightarrow> int list \<Rightarrow> real option"

definition today :: "session \<Rightarrow> date" where
  "today s = date_of (now s)"

datatype error = TypeError | UnboundLocalError | ZeroDivisionError

text \<open>\<^verbatim>\<open>query(...).first()\<close>: the first row, or \<open>None\<close>.\<close>

definition first :: "'a list \<Rightarrow> 'a option" where
  "first rows = (case rows of [] \<Rightarrow> None | r # _ \<Rightarrow> Some r)"

section \<open>Numeric helpers of numpy\<close>

definition mean :: "real list \<Rightarrow> real" where
  "mean xs = sum_list xs / real (length xs)"

definition clip :: "real \<Rightarrow> real \<Rightarrow> real \<Rightarrow> real" where
  "clip x lo hi = min (max x lo) hi"

text \<open>\<^verbatim>\<open>np.var\<close>: the population variance.\<close>

definition var :: "real list \<Rightarrow> real" where
  "var xs = (let m = mean xs in mean (map (\<lambda>x. (x - m) * (x - m)) xs))"

section \<open>The forecasting engine\<close>

record ForecastingEngine =
  fe_session :: session
  smoothing_alpha :: real
  lookback_days :: int
  forecast_horizon :: int

text \<open>\<^verbatim>\<open>ForecastingEngine.__init__\<close>, given the session it opens.\<close>

definition ForecastingEngine_init :: "session \<Rightarrow> ForecastingEngine" where
  "ForecastingEngine_init s =
     \<lparr>fe_session = s, smoothing_alpha = 0.3, lookback_days = 90, forecast_horizon = 30\<rparr>"

record data_point =
  dp_date :: date
  occupancy :: real
  dp_bookings :: nat

subsection \<open>\<^verbatim>\<open>_get_historical_bookings\<close>\<close>

text \<open>The dictionary \<^verbatim>\<open>daily_occupancy\<close>, filled by the loop over the bookings.\<close>

fun count_arrivals :: "Booking list \<Rightarrow> (date \<rightharpoonup> nat) \<Rightarrow> (date \<rightharpoonup> nat)" where
  "count_arrivals [] daily_occupancy = daily_occupancy"
| "count_arrivals (booking # rest) daily_occupancy =
     (let arrival_date = checkin booking;
          d1 = (if daily_occupancy arrival_date = None
                then daily_occupancy(arrival_date \<mapsto> 0) else daily_occupancy);
          d2 = d1(arrival_date \<mapsto> (case d1 arrival_date of Some c \<Rightarrow> c + 1 | None \<Rightarrow> 1))
      in count_arrivals rest d2)"

text \<open>The \<^verbatim>\<open>while current_date <= end_date\<close> loop.\<close>

function occupancy_loop ::
  "(date \<rightharpoonup> nat) \<Rightarrow> nat \<Rightarrow> date \<Rightarrow> date \<Rightarrow> data_point list \<Rightarrow> data_point list" where
  "occupancy_loop daily_occupancy total_rooms current_date end_date historical_data =
     (if current_date \<le> end_date
      then
        let bookings_count = (case daily_occupancy current_date of Some c \<Rightarrow> c | None \<Rightarrow> 0);
            occupancy_rate = real bookings_count / real (max total_rooms 1)
        in occupancy_loop daily_occupancy total_rooms (current_date + 1) end_date
             (historical_data @
               [\<lparr>dp_date = current_date, occupancy = occupancy_rate,
                 dp_bookings = bookings_count\<rparr>])
      else historical_data)"
  by pat_completeness auto
termination
  by (relation "measure (\<lambda>(d, t, cur, e, h). nat (e + 1 - cur))") auto

declare occupancy_loop.simps [simp del]

definition get_historical_bookings :: "ForecastingEngine \<Rightarrow> string \<Rightarrow> data_point list" where
  "get_historical_bookings self room_type =
     (let s = fe_session self;
          end_date = today s;
          start_date = end_date - lookback_days self;
          bks = filter (\<lambda>b. bk_room_type b = room_type \<and> checkin b \<ge> start_date
                             \<and> checkin b \<le> end_date) (bookings s);
          total_rooms = length (filter (\<lambda>i. inv_room_type i = room_type) (inventory s));
          daily_occupancy = count_arrivals bks Map.empty
      in occupancy_loop daily_occupancy total_rooms start_date end_date [])"

subsection \<open>The adjustment factors\<close>

text \<open>
  The dictionaries \<^verbatim>\<open>monthly_avg\<close> and \<^verbatim>\<open>dow_avg\<close>: the occupancies of the series,
  collected under the key (month or weekday) of their date.
\<close>

fun group_occupancy ::
  "(date \<Rightarrow> int) \<Rightarrow> data_point list \<Rightarrow> (int \<rightharpoonup> real list) \<Rightarrow> (int \<rightharpoonup> real list)" where
  "group_occupancy key [] groups = groups"
| "group_occupancy key (data_point # rest) groups =
     (let k = key (dp_date data_point);
          g1 = (if groups k = None then groups(k \<mapsto> []) else groups);
          g2 = g1(k \<mapsto> (case g1 k of Some l \<Rightarrow> l | None \<Rightarrow> []) @ [occupancy data_point])
      in group_occupancy key rest g2)"

definition calculate_seasonality :: "date \<Rightarrow> data_point list \<Rightarrow> real" where
  "calculate_seasonality target_date historical_data =
     (if historical_data = [] then 1.0
      else
        case group_occupancy month historical_data Map.empty (month target_date) of
          Some l \<Rightarrow>
            (let month_avg = mean l;
                 overall_avg = mean (map occupancy historical_data)
             in month_avg / max overall_avg 0.01)
        | None \<Rightarrow> 1.0)"

text \<open>
  The slope that scikit-learn's \<^verbatim>\<open>LinearRegression\<close> fits to the points
  \<open>(0, y\<^sub>0), (1, y\<^sub>1), \<dots>\<close>: the least-squares slope. The caller has at least 7 points,
  so the denominator is not zero and the fit does not raise.
\<close>

definition linear_regression_slope :: "real list \<Rightarrow> real" where
  "linear_regression_slope y =
     (let X = map real [0..<length y];
          xbar = mean X;
          ybar = mean y
      in sum_list (map (\<lambda>(x, v). (x - xbar) * (v - ybar)) (zip X y))
           / sum_list (map (\<lambda>x. (x - xbar) * (x - xbar)) X))"

definition calculate_trend :: "data_point list \<Rightarrow> real" where
  "calculate_trend historical_data =
     (if length historical_data < 7 then 1.0
      else
        let slope = linear_regression_slope (map occupancy historical_data);
            trend_factor = 1.0 + slope * 10
        in clip trend_factor 0.8 1.2)"

definition calculate_dow_factor :: "date \<Rightarrow> data_point list \<Rightarrow> real" where
  "calculate_dow_factor target_date historical_data =
     (if historical_data = [] then 1.0
      else
        let target_dow = weekday target_date
        in case group_occupancy weekday historical_data Map.empty target_dow of
             Some l \<Rightarrow>
               (let dow_mean = mean l;
                    overall_mean = mean (map occupancy historical_data)
                in dow_mean / max overall_mean 0.01)
           | None \<Rightarrow> 1.0)"

text \<open>
  A row whose \<^verbatim>\<open>created_at\<close> is NULL does not pass the filter
  \<^verbatim>\<open>created_at >= now - 60 days\<close>.
\<close>

definition calculate_lead_time_impact :: "ForecastingEngine \<Rightarrow> string \<Rightarrow> date \<Rightarrow> real" where
  "calculate_lead_time_impact self room_type target_date =
     (let s = fe_session self;
          lead_time_days = target_date - today s
      in if lead_time_days \<le> 0 then 1.1
         else
           let bks = filter (\<lambda>b. bk_room_type b = room_type \<and>
                        (case created_at b of
                           Some t \<Rightarrow> t \<ge> now s - 60 * 86400000000
                         | None \<Rightarrow> False)) (bookings s);
               historical_lead_times =
                 map (\<lambda>b. case created_at b of
                             Some t \<Rightarrow> checkin b - date_of t
                           | None \<Rightarrow> 0) bks
           in if historical_lead_times \<noteq> []
              then
                let avg_lead_time = mean (map real_of_int historical_lead_times)
                in if real_of_int lead_time_days < avg_lead_time * 0.5 then 1.05
                   else if real_of_int lead_time_days > avg_lead_time * 2 then 0.95
                   else 1.0
              else 1.0)"

text \<open>
  \<^verbatim>\<open>competitor_avg\<close> is a numpy float, so dividing it by a base rate of zero gives
  \<open>+inf\<close>, \<open>-inf\<close> or NaN instead of raising; the comparisons that follow then take the
  first branch, the second branch, or neither.
\<close>

definition get_competitor_impact :: "ForecastingEngine \<Rightarrow> string \<Rightarrow> date \<Rightarrow> real" where
  "get_competitor_impact self room_type target_date =
     (let s = fe_session self;
          rows = filter (\<lambda>cr. cr_room_type cr = room_type \<and> cr_date cr = target_date)
                   (competitor_rates s)
      in if rows = [] then 1.0
         else
           case first (filter (\<lambda>r. rt_name r = room_type) (room_types s)) of
             None \<Rightarrow> 1.0
           | Some our_base_rate \<Rightarrow>
               (let competitor_avg = mean (map cr_rate rows)
                in if base_rate our_base_rate = 0
                   then (if competitor_avg > 0 then 1.05
                         else if competitor_avg < 0 then 0.95
                         else 1.0)
                   else
                     let price_ratio = competitor_avg / base_rate our_base_rate
                     in if price_ratio > 1.1 then 1.05
                        else if price_ratio < 0.9 then 0.95
                        else 1.0))"

text \<open>\<^verbatim>\<open>min(None, 1.5)\<close> raises a \<^verbatim>\<open>TypeError\<close>.\<close>

definition get_event_impact :: "ForecastingEngine \<Rightarrow> date \<Rightarrow> error + real" where
  "get_event_impact self target_date =
     (case first (filter (\<lambda>e. ev_date e = target_date) (event_multipliers (fe_session self))) of
        Some event \<Rightarrow>
          (case multiplier event of
             Some m \<Rightarrow> Inr (min m 1.5)
           | None \<Rightarrow> Inl TypeError)
      | None \<Rightarrow> Inr 1.0)"

subsection \<open>The base demand\<close>

definition exponential_smoothing_forecast :: "ForecastingEngine \<Rightarrow> data_point list \<Rightarrow> real" where
  "exponential_smoothing_forecast self historical_data =
     (case map occupancy historical_data of
        [] \<Rightarrow> 0.75
      | v0 # values \<Rightarrow>
          foldl (\<lambda>smoothed value.
                   smoothing_alpha self * value + (1 - smoothing_alpha self) * smoothed)
            v0 values)"

definition feature_vector :: "session \<Rightarrow> date \<Rightarrow> int list" where
  "feature_vector s date_obj = [weekday date_obj, month date_obj, day date_obj, date_obj - today s]"

definition ml_demand_forecast ::
  "ForecastingEngine \<Rightarrow> string \<Rightarrow> date \<Rightarrow> data_point list \<Rightarrow> real" where
  "ml_demand_forecast self room_type target_date historical_data =
     (if length historical_data < 30 then 0.75
      else
        let s = fe_session self;
            training = take (length historical_data - 7) historical_data;
            features = map (\<lambda>dp. feature_vector s (dp_date dp)) training;
            targets = map occupancy training
        in if length features < 10 then 0.75
           else
             case random_forest s features targets (feature_vector s target_date) of
               Some prediction \<Rightarrow> clip prediction 0.0 1.0
             | None \<Rightarrow> exponential_smoothing_forecast self historical_data)"

subsection \<open>The forecast\<close>

record components =
  base_demand :: real
  seasonality_factor :: real
  trend_factor :: real
  day_of_week_factor :: real
  lead_time_factor :: real
  competitor_factor :: real
  event_factor :: real

record forecast =
  fc_room_type :: string
  fc_target_date :: date
  forecasted_demand :: real
  fc_components :: components
  confidence :: real
  model_used :: string

definition fallback_forecast :: "ForecastingEngine \<Rightarrow> string \<Rightarrow> date \<Rightarrow> forecast" where
  "fallback_forecast self room_type target_date =
     (let baseline_demand = (if weekday target_date \<ge> 5 then 0.75 * 1.1 else 0.75)
      in \<lparr>fc_room_type = room_type,
          fc_target_date = target_date,
          forecasted_demand = baseline_demand,
          fc_components =
            \<lparr>base_demand = baseline_demand,
             seasonality_factor = 1.0,
             trend_factor = 1.0,
             day_of_week_factor = (if weekday target_date \<ge> 5 then 1.1 else 1.0),
             lead_time_factor = 1.0,
             competitor_factor = 1.0,
             event_factor = 1.0\<rparr>,
          confidence = 0.5,
          model_used = ''fallback''\<rparr>)"

definition calculate_confidence :: "data_point list \<Rightarrow> real \<Rightarrow> real" where
  "calculate_confidence historical_data fc =
     (if length historical_data < 7 then 0.3
      else
        let variance = var (map occupancy historical_data);
            conf = 1.0 - min (variance * 2) 0.7
        in max conf 0.3)"

definition calculate_demand_forecast ::
  "ForecastingEngine \<Rightarrow> string \<Rightarrow> date \<Rightarrow> bool \<Rightarrow> error + forecast" where
  "calculate_demand_forecast self room_type target_date use_ml =
     (let historical_data = get_historical_bookings self room_type
      in if length historical_data < 14
         then Inr (fallback_forecast self room_type target_date)
         else
           let seasonality = calculate_seasonality target_date historical_data;
               trend = calculate_trend historical_data;
               dow = calculate_dow_factor target_date historical_data;
               lead_time = calculate_lead_time_impact self room_type target_date;
               competitor = get_competitor_impact self room_type target_date
           in case get_event_impact self target_date of
                Inl e \<Rightarrow> Inl e
              | Inr event \<Rightarrow>
                  (let base =
                         (if use_ml \<and> length historical_data \<ge> 30
                          then ml_demand_forecast self room_type target_date historical_data
                          else exponential_smoothing_forecast self historical_data);
                       final_demand =
                         clip (base * seasonality * trend * dow * competitor * event * lead_time)
                           0.0 1.0
                   in Inr \<lparr>fc_room_type = room_type,
                           fc_target_date = target_date,
                           forecasted_demand = final_demand,
                           fc_components =
                             \<lparr>base_demand = base,
                              seasonality_factor = seasonality,
                              trend_factor = trend,
                              day_of_week_factor = dow,
                              lead_time_factor = lead_time,
                              competitor_factor = competitor,
                              event_factor = event\<rparr>,
                           confidence = calculate_confidence historical_data final_demand,
                           model_used =
                             (if use_ml \<and> length historical_data \<ge> 30 then ''ml''
                              else ''exponential_smoothing'')\<rparr>))"

subsection \<open>\<^verbatim>\<open>update_forecast_accuracy\<close>\<close>

record accuracy =
  ac_room_type :: string
  ac_date :: date
  predicted_demand :: real
  actual_occupancy :: real
  absolute_error :: real
  percentage_error :: real
  accuracy_score :: real

text \<open>
  \<^verbatim>\<open>order_by(created_at.desc()).first()\<close>: a row with the greatest \<^verbatim>\<open>created_at\<close>,
  NULL being the least; among equal ones the first of the table.
\<close>

definition created_after :: "ForecastData \<Rightarrow> ForecastData \<Rightarrow> bool" where
  "created_after a b =
     (case fd_created_at a of
        None \<Rightarrow> False
      | Some ta \<Rightarrow> (case fd_created_at b of None \<Rightarrow> True | Some tb \<Rightarrow> ta > tb))"

fun latest_forecast :: "ForecastData list \<Rightarrow> ForecastData option" where
  "latest_forecast [] = None"
| "latest_forecast (r # rs) =
     (case latest_forecast rs of
        None \<Rightarrow> Some r
      | Some r' \<Rightarrow> if created_after r' r then Some r' else Some r)"

definition update_forecast_accuracy ::
  "ForecastingEngine \<Rightarrow> string \<Rightarrow> date \<Rightarrow> error + accuracy option" where
  "update_forecast_accuracy self room_type actual_date =
     (let s = fe_session self;
          actual_bookings = length (filter (\<lambda>b. bk_room_type b = room_type
                                             \<and> checkin b = actual_date) (bookings s));
          total_inventory = length (filter (\<lambda>i. inv_room_type i = room_type) (inventory s));
          actual_occ = real actual_bookings / real (max total_inventory 1)
      in case latest_forecast (filter (\<lambda>f. fd_room_type f = room_type
                                          \<and> fd_date f = actual_date) (forecast_data s)) of
           Some forecast_record \<Rightarrow>
             (case fd_forecasted_demand forecast_record of
                None \<Rightarrow> Inl TypeError
              | Some predicted \<Rightarrow>
                  (let err = \<bar>predicted - actual_occ\<bar>;
                       error_pct = (err / max actual_occ 0.01) * 100
                   in Inr (Some \<lparr>ac_room_type = room_type,
                                 ac_date = actual_date,
                                 predicted_demand = predicted,
                                 actual_occupancy = actual_occ,
                                 absolute_error = err,
                                 percentage_error = error_pct,
                                 accuracy_score = max 0 (100 - error_pct)\<rparr>)))
         | None \<Rightarrow> Inr None)"

subsection \<open>\<^verbatim>\<open>generate_demand_scenarios\<close>\<close>

record revenue_impact =
  base_revenue :: real
  scenario_revenue :: real
  revenue_difference :: real
  percentage_impact :: real

record scenario =
  demand :: real
  probability :: real
  description :: string
  sc_revenue_impact :: revenue_impact

record scenarios_result =
  sr_room_type :: string
  sr_target_date :: date
  base_forecast :: real
  scenarios :: "(string \<times> scenario) list"

definition calculate_revenue_impact ::
  "ForecastingEngine \<Rightarrow> string \<Rightarrow> real \<Rightarrow> real \<Rightarrow> revenue_impact" where
  "calculate_revenue_impact self room_type scenario_demand base_dem =
     (let s = fe_session self;
          rate0 = (case first (filter (\<lambda>r. rt_name r = room_type) (room_types s)) of
                     Some room_type_obj \<Rightarrow> base_rate room_type_obj
                   | None \<Rightarrow> 300);
          total_rooms = real (length (filter (\<lambda>i. inv_room_type i = room_type) (inventory s)));
          base_rev = base_dem * total_rooms * rate0;
          scenario_rev = scenario_demand * total_rooms * rate0
      in \<lparr>base_revenue = base_rev,
          scenario_revenue = scenario_rev,
          revenue_difference = scenario_rev - base_rev,
          percentage_impact = ((scenario_rev - base_rev) / max base_rev 1) * 100\<rparr>)"

text \<open>\<^verbatim>\<open>d[k] = v\<close> on a dictionary kept as the list of its items in insertion order.\<close>

fun dict_set :: "('k \<times> 'v) list \<Rightarrow> 'k \<Rightarrow> 'v \<Rightarrow> ('k \<times> 'v) list" where
  "dict_set [] k v = [(k, v)]"
| "dict_set ((k', v') # rest) k v =
     (if k' = k then (k, v) # rest else (k', v') # dict_set rest k v)"

text \<open>
  The loop over the scenario names. The locals \<^verbatim>\<open>demand\<close>, \<^verbatim>\<open>probability\<close> and
  \<^verbatim>\<open>description\<close> are assigned together, or not at all when the name is none of the
  three: then they keep the values of the previous round, and reading them in the first
  round raises \<^verbatim>\<open>UnboundLocalError\<close>. The three description strings are named.
\<close>

definition low_description :: string where
  "low_description = ''Market downturn, increased competition''"

definition base_description :: string where
  "base_description = ''Expected market conditions''"

definition high_description :: string where
  "high_description = ''Strong market, limited competition''"

fun scenario_loop ::
  "ForecastingEngine \<Rightarrow> string \<Rightarrow> real \<Rightarrow> string list \<Rightarrow> (real \<times> real \<times> string) option
     \<Rightarrow> (string \<times> scenario) list \<Rightarrow> error + (string \<times> scenario) list" where
  "scenario_loop self room_type base_dem [] locals scenario_results = Inr scenario_results"
| "scenario_loop self room_type base_dem (name # rest) locals scenario_results =
     (let locals' =
            (if name = ''low''
             then Some (base_dem * 0.8, 0.2, low_description)
             else if name = ''base''
             then Some (base_dem, 0.6, base_description)
             else if name = ''high''
             then Some (base_dem * 1.3, 0.2, high_description)
             else locals)
      in case locals' of
           None \<Rightarrow> Inl UnboundLocalError
         | Some (dem, prob, descr) \<Rightarrow>
             scenario_loop self room_type base_dem rest locals'
               (dict_set scenario_results name
                  \<lparr>demand = min dem 1.0,
                   probability = prob,
                   description = descr,
                   sc_revenue_impact = calculate_revenue_impact self room_type dem base_dem\<rparr>))"

definition generate_demand_scenarios ::
  "ForecastingEngine \<Rightarrow> string \<Rightarrow> date \<Rightarrow> string list \<Rightarrow> error + scenarios_result" where
  "generate_demand_scenarios self room_type target_date names =
     (case calculate_demand_forecast self room_type target_date True of
        Inl e \<Rightarrow> Inl e
      | Inr fc \<Rightarrow>
          (let base_dem = forecasted_demand fc
           in case scenario_loop self room_type base_dem names None [] of
                Inl e \<Rightarrow> Inl e
              | Inr scenario_results \<Rightarrow>
                  Inr \<lparr>sr_room_type = room_type,
                       sr_target_date = target_date,
                       base_forecast = base_dem,
                       scenarios = scenario_results\<rparr>))"

text \<open>The default value of the parameter \<^verbatim>\<open>scenarios\<close>.\<close>

definition default_scenarios :: "string list" where
  "default_scenarios = [''low'', ''base'', ''high'']"

section \<open>The pricing engine\<close>

record PricingEngine =
  pe_session :: session
  alpha :: real
  beta :: real
  gamma :: real
  delta :: real
  baseline_demand :: real
  max_lead_time :: int

definition PricingEngine_init :: "session \<Rightarrow> PricingEngine" where
  "PricingEngine_init s =
     \<lparr>pe_session = s, alpha = 0.3, beta = 0.25, gamma = 0.02, delta = 1.0,
      baseline_demand = 0.75, max_lead_time = 365\<rparr>"

definition get_base_rate :: "PricingEngine \<Rightarrow> string \<Rightarrow> real" where
  "get_base_rate self room_type =
     (case first (filter (\<lambda>r. rt_name r = room_type) (room_types (pe_session self))) of
        Some room_type_obj \<Rightarrow> base_rate room_type_obj
      | None \<Rightarrow> 300)"

definition calculate_demand_fallback :: "PricingEngine \<Rightarrow> string \<Rightarrow> date \<Rightarrow> real" where
  "calculate_demand_fallback self room_type target_date =
     (let s = pe_session self;
          past_dates = map (\<lambda>weeks_back. target_date - 7 * weeks_back) [1, 2, 3, 4];
          booking_counts =
            map (\<lambda>past_date. length (filter (\<lambda>b. bk_room_type b = room_type
                                               \<and> checkin b = past_date) (bookings s)))
              past_dates
      in if booking_counts \<noteq> []
         then
           let avg_bookings = mean (map real booking_counts);
               total_rooms = length (filter (\<lambda>i. inv_room_type i = room_type) (inventory s))
           in min (avg_bookings / real (max total_rooms 1)) 1.0
         else baseline_demand self)"

text \<open>The result is \<open>None\<close> when the stored forecast holds NULL.\<close>

definition get_forecasted_demand :: "PricingEngine \<Rightarrow> string \<Rightarrow> date \<Rightarrow> real option" where
  "get_forecasted_demand self room_type target_date =
     (case first (filter (\<lambda>f. fd_room_type f = room_type \<and> fd_date f = target_date)
                    (forecast_data (pe_session self))) of
        Some fc \<Rightarrow> fd_forecasted_demand fc
      | None \<Rightarrow> Some (calculate_demand_fallback self room_type target_date))"

text \<open>\<^verbatim>\<open>np.median\<close> of a non-empty list.\<close>

definition median :: "real list \<Rightarrow> real" where
  "median xs =
     (let ys = sort xs; n = length ys
      in if odd n then ys ! (n div 2)
         else (ys ! (n div 2 - 1) + ys ! (n div 2)) / 2)"

text \<open>
  The median is a numpy float, so with a base rate of zero the quotient is an infinity or
  a NaN, which no real number stands for: the result is \<open>None\<close> then.
\<close>

definition get_competitor_index :: "PricingEngine \<Rightarrow> string \<Rightarrow> date \<Rightarrow> real option" where
  "get_competitor_index self room_type target_date =
     (let base = get_base_rate self room_type;
          rows = filter (\<lambda>cr. cr_room_type cr = room_type \<and> cr_date cr = target_date)
                   (competitor_rates (pe_session self));
          rates = map cr_rate (filter availability rows)
      in if rows \<noteq> [] \<and> rates \<noteq> []
         then (if base = 0 then None else Some (median rates / base))
         else Some 1.0)"

definition get_event_multiplier :: "PricingEngine \<Rightarrow> date \<Rightarrow> real option" where
  "get_event_multiplier self target_date =
     (case first (filter (\<lambda>e. ev_date e = target_date) (event_multipliers (pe_session self))) of
        Some event \<Rightarrow> multiplier event
      | None \<Rightarrow> Some 1.0)"

definition calculate_time_factor :: "PricingEngine \<Rightarrow> date \<Rightarrow> error + real" where
  "calculate_time_factor self target_date =
     (let lead_time_days = target_date - today (pe_session self)
      in if lead_time_days \<le> 0 then Inr 0
         else if max_lead_time self = 0 then Inl ZeroDivisionError
         else
           let normalized_lead_time =
                 min (real_of_int lead_time_days / real_of_int (max_lead_time self)) 1.0
           in Inr (normalized_lead_time * 0.1))"

definition get_floor_ceiling :: "PricingEngine \<Rightarrow> string \<Rightarrow> real \<times> real" where
  "get_floor_ceiling self room_type =
     (let base = get_base_rate self room_type
      in (base * 0.7, base * 1.5))"

subsection \<open>\<^verbatim>\<open>calculate_dynamic_price\<close>\<close>

text \<open>\<^verbatim>\<open>round(x, ndigits)\<close>: to the nearest multiple of \<open>10\<^sup>-\<^sup>n\<close>, a tie to the even one.\<close>

definition rint :: "real \<Rightarrow> int" where
  "rint x =
     (let f = \<lfloor>x\<rfloor>; r = x - of_int f
      in if r < 1 / 2 then f
         else if r > 1 / 2 then f + 1
         else if even f then f else f + 1)"

definition py_round :: "real \<Rightarrow> nat \<Rightarrow> real" where
  "py_round x ndigits = of_int (rint (x * 10 ^ ndigits)) / 10 ^ ndigits"

text \<open>
  \<^verbatim>\<open>override_params.get(key, default) if override_params else default\<close>; an empty
  dictionary is falsy and gives the default as well.
\<close>

definition coefficient :: "(string \<rightharpoonup> real) option \<Rightarrow> string \<Rightarrow> real \<Rightarrow> real" where
  "coefficient override_params key dflt =
     (case override_params of
        Some d \<Rightarrow> (case d key of Some v \<Rightarrow> v | None \<Rightarrow> dflt)
      | None \<Rightarrow> dflt)"

text \<open>The pricing formula, lines 125 to 132 of the source.\<close>

definition price_demand_factor :: "real \<Rightarrow> real \<Rightarrow> real \<Rightarrow> real" where
  "price_demand_factor a baseline fdem = 1 + a * (fdem - baseline)"

definition price_competitor_factor :: "real \<Rightarrow> real \<Rightarrow> real" where
  "price_competitor_factor b competitor_index = 1 + b * (competitor_index - 1)"

definition price_event_factor :: "real \<Rightarrow> real \<Rightarrow> real" where
  "price_event_factor dl event_multiplier = 1 + dl * (event_multiplier - 1)"

definition price_time_discount_factor :: "real \<Rightarrow> real \<Rightarrow> real" where
  "price_time_discount_factor g time_factor = 1 - g * time_factor"

definition raw_price_formula ::
  "real \<Rightarrow> real \<Rightarrow> real \<Rightarrow> real \<Rightarrow> real \<Rightarrow> real \<Rightarrow> real \<Rightarrow> real \<Rightarrow> real \<Rightarrow> real \<Rightarrow> real" where
  "raw_price_formula base a b g dl baseline fdem competitor_index event_multiplier time_factor =
     base * price_demand_factor a baseline fdem
          * price_competitor_factor b competitor_index
          * price_event_factor dl event_multiplier
          * price_time_discount_factor g time_factor"

record price_components =
  pc_forecasted_demand :: real
  pc_competitor_index :: real
  pc_event_multiplier :: real
  pc_time_factor :: real
  pc_demand_factor :: real
  pc_competitor_factor :: real
  pc_event_factor :: real
  pc_time_discount_factor :: real

record coefficients =
  co_alpha :: real
  co_beta :: real
  co_gamma :: real
  co_delta :: real

record price =
  p_room_type :: string
  p_date :: date
  p_base_rate :: real
  final_price :: real
  raw_price :: real
  price_floor :: real
  price_ceiling :: real
  p_components :: price_components
  p_coefficients :: coefficients

text \<open>
  A call either raises, or returns a record, or returns a record whose prices are NaN
  (\<open>NotFinite\<close>: the competitor index was not finite, and the base rate that made it so
  is the first factor of the raw price, a zero).
\<close>

datatype failure = Raised error | NotFinite

text \<open>
  The engine is passed through the call and returned with the result, so that what the
  call does to \<^verbatim>\<open>self\<close> is part of the model.
\<close>

definition calculate_dynamic_price ::
  "PricingEngine \<Rightarrow> string \<Rightarrow> date \<Rightarrow> (string \<rightharpoonup> real) option
     \<Rightarrow> (failure + price) \<times> PricingEngine" where
  "calculate_dynamic_price self room_type target_date override_params =
     (let a = coefficient override_params ''alpha'' (alpha self);
          b = coefficient override_params ''beta'' (beta self);
          g = coefficient override_params ''gamma'' (gamma self);
          dl = coefficient override_params ''delta'' (delta self);
          base = get_base_rate self room_type;
          fdem_opt = get_forecasted_demand self room_type target_date;
          competitor_index_opt = get_competitor_index self room_type target_date;
          event_multiplier_opt = get_event_multiplier self target_date
      in case calculate_time_factor self target_date of
           Inl e \<Rightarrow> (Inl (Raised e), self)
         | Inr time_factor \<Rightarrow>
             (let (flr, ceil) = get_floor_ceiling self room_type
              in case fdem_opt of
                   None \<Rightarrow> (Inl (Raised TypeError), self)
                 | Some fdem \<Rightarrow>
                     (case event_multiplier_opt of
                        None \<Rightarrow> (Inl (Raised TypeError), self)
                      | Some event_multiplier \<Rightarrow>
                          (case competitor_index_opt of
                             None \<Rightarrow> (Inl NotFinite, self)
                           | Some competitor_index \<Rightarrow>
                               (let raw = raw_price_formula base a b g dl (baseline_demand self)
                                            fdem competitor_index event_multiplier time_factor;
                                    final = clip raw flr ceil
                                in (Inr \<lparr>p_room_type = room_type,
                                         p_date = target_date,
                                         p_base_rate = base,
                                         final_price = py_round final 2,
                                         raw_price = py_round raw 2,
                                         price_floor = flr,
                                         price_ceiling = ceil,
                                         p_components =
                                           \<lparr>pc_forecasted_demand = py_round fdem 3,
                                            pc_competitor_index = py_round competitor_index 3,
                                            pc_event_multiplier = py_round event_multiplier 3,
                                            pc_time_factor = py_round time_factor 3,
                                            pc_demand_factor =
                                              py_round (price_demand_factor a
                                                (baseline_demand self) fdem) 3,
                                            pc_competitor_factor =
                                              py_round (price_competitor_factor b
                                                competitor_index) 3,
                                            pc_event_factor =
                                              py_round (price_event_factor dl
                                                event_multiplier) 3,
                                            pc_time_discount_factor =
                                              py_round (price_time_discount_factor g
                                                time_factor) 3\<rparr>,
                                         p_coefficients =
                                           \<lparr>co_alpha = a, co_beta = b,
                                            co_gamma = g, co_delta = dl\<rparr>\<rparr>,
                                    self))))))"

text \<open>\<^verbatim>\<open>update_coefficients\<close>, the one method that assigns to the coefficients.\<close>

definition update_coefficients ::
  "PricingEngine \<Rightarrow> real option \<Rightarrow> real option \<Rightarrow> real option \<Rightarrow> real option
     \<Rightarrow> PricingEngine" where
  "update_coefficients self a b g dl =
     (let s1 = (case a of Some v \<Rightarrow> self\<lparr>alpha := v\<rparr> | None \<Rightarrow> self);
          s2 = (case b of Some v \<Rightarrow> s1\<lparr>beta := v\<rparr> | None \<Rightarrow> s1);
          s3 = (case g of Some v \<Rightarrow> s2\<lparr>gamma := v\<rparr> | None \<Rightarrow> s2);
          s4 = (case dl of Some v \<Rightarrow> s3\<lparr>delta := v\<rparr> | None \<Rightarrow> s3)
      in s4)"

section \<open>Concrete sessions\<close>

text \<open>A regressor that always raises, for the sessions below.\<close>

definition no_forest :: "int list list \<Rightarrow> real list \<Rightarrow> int list \<Rightarrow> real option" where
  "no_forest features targets x = None"

text \<open>
  The example of the specification: a base rate of 280, a stored forecast of 0.75, no
  competitor rows, an event of 1.25 on the target date (ordinal 738896), ten days ahead
  of today (ordinal 738886, a Monday).
\<close>

definition example_session :: session where
  "example_session =
     \<lparr>room_types = [\<lparr>rt_name = ''Deluxe'', capacity = 2, base_rate = 280\<rparr>],
      inventory = [\<lparr>room_id = 1, inv_room_type = ''Deluxe''\<rparr>],
      bookings = [],
      competitor_rates = [],
      event_multipliers = [\<lparr>ev_date = 738896, multiplier = Some 1.25\<rparr>],
      forecast_data =
        [\<lparr>fd_date = 738896, fd_room_type = ''Deluxe'', fd_forecasted_demand = Some 0.75,
          fd_created_at = None\<rparr>],
      now = 738886 * 86400000000,
      random_forest = no_forest\<rparr>"

definition example_price :: price where
  "example_price =
     \<lparr>p_room_type = ''Deluxe'', p_date = 738896, p_base_rate = 280,
      final_price = 349.98, raw_price = 349.98, price_floor = 196, price_ceiling = 420,
      p_components =
        \<lparr>pc_forecasted_demand = 0.75, pc_competitor_index = 1, pc_event_multiplier = 1.25,
         pc_time_factor = 0.003, pc_demand_factor = 1, pc_competitor_factor = 1,
         pc_event_factor = 1.25, pc_time_discount_factor = 1\<rparr>,
      p_coefficients = \<lparr>co_alpha = 0.3, co_beta = 0.25, co_gamma = 0.02, co_delta = 1\<rparr>\<rparr>"

text \<open>The price of a category that the session above does not know.\<close>

definition penthouse_price :: price where
  "penthouse_price =
     \<lparr>p_room_type = ''Penthouse'', p_date = 738896, p_base_rate = 300,
      final_price = 290.61, raw_price = 290.61, price_floor = 210, price_ceiling = 450,
      p_components =
        \<lparr>pc_forecasted_demand = 0, pc_competitor_index = 1, pc_event_multiplier = 1.25,
         pc_time_factor = 0.003, pc_demand_factor = 0.775, pc_competitor_factor = 1,
         pc_event_factor = 1.25, pc_time_discount_factor = 1\<rparr>,
      p_coefficients = \<lparr>co_alpha = 0.3, co_beta = 0.25, co_gamma = 0.02, co_delta = 1\<rparr>\<rparr>"

text \<open>
  A base rate of 100.02, whose floor 70.014 is not a multiple of a cent; a stored forecast
  of 0 and one available competitor at 50.01 bring the raw price below the floor.
\<close>

definition rounding_session :: session where
  "rounding_session =
     \<lparr>room_types = [\<lparr>rt_name = ''Deluxe'', capacity = 2, base_rate = 100.02\<rparr>],
      inventory = [\<lparr>room_id = 1, inv_room_type = ''Deluxe''\<rparr>],
      bookings = [],
      competitor_rates =
        [\<lparr>cr_date = 738886, competitor_id = ''Rival'', cr_room_type = ''Deluxe'',
          cr_rate = 50.01, availability = True\<rparr>],
      event_multipliers = [],
      forecast_data =
        [\<lparr>fd_date = 738886, fd_room_type = ''Deluxe'', fd_forecasted_demand = Some 0,
          fd_created_at = None\<rparr>],
      now = 738886 * 86400000000,
      random_forest = no_forest\<rparr>"

definition rounding_price :: price where
  "rounding_price =
     \<lparr>p_room_type = ''Deluxe'', p_date = 738886, p_base_rate = 100.02,
      final_price = 70.01, raw_price = 67.83, price_floor = 70.014, price_ceiling = 150.03,
      p_components =
        \<lparr>pc_forecasted_demand = 0, pc_competitor_index = 0.5, pc_event_multiplier = 1,
         pc_time_factor = 0, pc_demand_factor = 0.775, pc_competitor_factor = 0.875,
         pc_event_factor = 1, pc_time_discount_factor = 1\<rparr>,
      p_coefficients = \<lparr>co_alpha = 0.3, co_beta = 0.25, co_gamma = 0.02, co_delta = 1\<rparr>\<rparr>"

text \<open>
  A session with ninety-one days of history for one category of two rooms: one arrival
  today (ordinal 738886), two arrivals six days before, four competitor rows (one of
  them not available) and an event on the Saturday ahead (ordinal 738891), and a stored
  forecast for the day of the two arrivals.
\<close>

definition history_session :: session where
  "history_session =
     \<lparr>room_types = [\<lparr>rt_name = ''Deluxe'', capacity = 2, base_rate = 280\<rparr>],
      inventory = [\<lparr>room_id = 1, inv_room_type = ''Deluxe''\<rparr>,
                   \<lparr>room_id = 2, inv_room_type = ''Deluxe''\<rparr>],
      bookings =
        [\<lparr>bk_room_type = ''Deluxe'', checkin = 738886, checkout = 738888, rate = 280,
          channel = ''Direct'', created_at = Some (738880 * 86400000000)\<rparr>,
         \<lparr>bk_room_type = ''Deluxe'', checkin = 738880, checkout = 738881, rate = 260,
          channel = ''OTA'', created_at = Some (738870 * 86400000000)\<rparr>,
         \<lparr>bk_room_type = ''Deluxe'', checkin = 738880, checkout = 738882, rate = 300,
          channel = ''Direct'', created_at = None\<rparr>],
      competitor_rates =
        [\<lparr>cr_date = 738891, competitor_id = ''A'', cr_room_type = ''Deluxe'',
          cr_rate = 280, availability = True\<rparr>,
         \<lparr>cr_date = 738891, competitor_id = ''B'', cr_room_type = ''Deluxe'',
          cr_rate = 280, availability = True\<rparr>,
         \<lparr>cr_date = 738891, competitor_id = ''C'', cr_room_type = ''Deluxe'',
          cr_rate = 100, availability = True\<rparr>,
         \<lparr>cr_date = 738891, competitor_id = ''D'', cr_room_type = ''Deluxe'',
          cr_rate = 1600, availability = False\<rparr>],
      event_multipliers = [\<lparr>ev_date = 738891, multiplier = Some 1.2\<rparr>],
      forecast_data =
        [\<lparr>fd_date = 738880, fd_room_type = ''Deluxe'', fd_forecasted_demand = Some 0.8,
          fd_created_at = None\<rparr>],
      now = 738886 * 86400000000,
      random_forest = no_forest\<rparr>"

text \<open>
  The forecast of this session for the Monday a week ahead (ordinal 738893) without the
  regressor, and the scenarios of that day.
\<close>

definition monday_forecast :: forecast where
  "monday_forecast =
     \<lparr>fc_room_type = ''Deluxe'', fc_target_date = 738893, forecasted_demand = 1,
      fc_components =
        \<lparr>base_demand = 1852947 / 10000000, seasonality_factor = 91 / 3,
         trend_factor = 4227 / 4186, day_of_week_factor = 7 / 3,
         lead_time_factor = 1, competitor_factor = 1, event_factor = 1\<rparr>,
      confidence = 8058 / 8281, model_used = ''exponential_smoothing''\<rparr>"

definition monday_scenarios :: scenarios_result where
  "monday_scenarios =
     \<lparr>sr_room_type = ''Deluxe'', sr_target_date = 738893, base_forecast = 1,
      scenarios =
        [(''low'',
          \<lparr>demand = 0.8, probability = 0.2, description = low_description,
           sc_revenue_impact =
             \<lparr>base_revenue = 560, scenario_revenue = 448, revenue_difference = - 112,
              percentage_impact = - 20\<rparr>\<rparr>),
         (''base'',
          \<lparr>demand = 1, probability = 0.6, description = base_description,
           sc_revenue_impact =
             \<lparr>base_revenue = 560, scenario_revenue = 560, revenue_difference = 0,
              percentage_impact = 0\<rparr>\<rparr>),
         (''high'',
          \<lparr>demand = 1, probability = 0.2, description = high_description,
           sc_revenue_impact =
             \<lparr>base_revenue = 560, scenario_revenue = 728, revenue_difference = 168,
              percentage_impact = 30\<rparr>\<rparr>)]\<rparr>"



text \<open>The session without any inventory row, and what accuracy tracking reports there.\<close>

definition zero_inventory_session :: session where
  "zero_inventory_session = history_session\<lparr>inventory := []\<rparr>"

definition zero_inventory_accuracy :: accuracy where
  "zero_inventory_accuracy =
     \<lparr>ac_room_type = ''Deluxe'', ac_date = 738880, predicted_demand = 0.8,
      actual_occupancy = 2, absolute_error = 1.2, percentage_error = 60,
      accuracy_score = 40\<rparr>"

section \<open>The competitor factor as the specification words it\<close>

text \<open>
  The specification computes the competitor factor of the forecast from the median of
  the available competitor rates. This definition follows its words, to be compared with
  \<^verbatim>\<open>_get_competitor_impact\<close>; it takes the factor to be 1.0 where the specification
  says nothing (no available rate, an unknown category, a base rate of zero).
\<close>

definition spec_competitor_factor :: "ForecastingEngine \<Rightarrow> string \<Rightarrow> date \<Rightarrow> real" where
  "spec_competitor_factor self room_type target_date =
     (let s = fe_session self;
          rows = filter (\<lambda>cr. cr_room_type cr = room_type \<and> cr_date cr = target_date)
                   (competitor_rates s);
          rates = map cr_rate (filter availability rows)
      in if rows = [] then 1.0
         else
           case first (filter (\<lambda>r. rt_name r = room_type) (room_types s)) of
             None \<Rightarrow> 1.0
           | Some our_base_rate \<Rightarrow>
               if rates = [] \<or> base_rate our_base_rate = 0 then 1.0
               else
                 let ratio = median rates / base_rate our_base_rate
                 in if ratio > 1.1 then 1.05
                    else if ratio < 0.9 then 0.95
                    else 1.0)"

section \<open>Properties of the pricing engine\<close>

lemmas pricing_defs =
  calculate_dynamic_price_def get_base_rate_def get_forecasted_demand_def
  calculate_demand_fallback_def get_competitor_index_def get_event_multiplier_def
  calculate_time_factor_def get_floor_ceiling_def coefficient_def first_def
  raw_price_formula_def price_demand_factor_def price_competitor_factor_def
  price_event_factor_def price_time_discount_factor_def clip_def py_round_def rint_def
  median_def mean_def today_def date_of_def PricingEngine_init_def Let_def

lemma example_price_computed:
  "fst (calculate_dynamic_price (PricingEngine_init example_session) ''Deluxe'' 738896 None)
     = Inr example_price"
  by (simp add: pricing_defs example_session_def example_price_def)

lemma penthouse_price_computed:
  "fst (calculate_dynamic_price (PricingEngine_init example_session) ''Penthouse'' 738896 None)
     = Inr penthouse_price"
  by (simp add: pricing_defs example_session_def penthouse_price_def)

lemma rounding_price_computed:
  "fst (calculate_dynamic_price (PricingEngine_init rounding_session) ''Deluxe'' 738886 None)
     = Inr rounding_price"
  by (simp add: pricing_defs rounding_session_def rounding_price_def)

subsection \<open>Rounding and clipping\<close>

lemma rint_close: "\<bar>of_int (rint x) - x\<bar> \<le> 1 / 2"
  unfolding rint_def Let_def by (auto; linarith)

lemma py_round_2_close: "\<bar>py_round x 2 - x\<bar> \<le> 0.005"
proof -
  have "\<bar>of_int (rint (x * 100)) - x * 100\<bar> \<le> 1 / 2"
    by (rule rint_close)
  then have "\<bar>of_int (rint (x * 100)) / 100 - x\<bar> \<le> 0.005"
    by (simp add: field_simps abs_if split: if_splits)
  then show ?thesis
    by (simp add: py_round_def)
qed

lemma clip_bounds: "lo \<le> hi \<Longrightarrow> lo \<le> clip x lo hi \<and> clip x lo hi \<le> hi"
  by (simp add: clip_def)

lemma calculate_dynamic_price_result:
  assumes "fst (calculate_dynamic_price self room_type target_date override_params) = Inr p"
  shows "p_base_rate p = get_base_rate self room_type
       \<and> price_floor p = get_base_rate self room_type * 0.7
       \<and> price_ceiling p = get_base_rate self room_type * 1.5
       \<and> (\<exists>raw. final_price p = py_round (clip raw (price_floor p) (price_ceiling p)) 2)"
  using assms
  by (auto simp: calculate_dynamic_price_def get_floor_ceiling_def Let_def
        split: sum.splits option.splits)

subsection \<open>C1: the price and its bounds\<close>

text \<open>
  Between rounding and clipping: for a positive base rate the price that a call returns
  is the two-decimal rounding of a value between floor and ceiling, so it strays from
  the interval by half a cent at most.
\<close>

lemma final_price_near_bounds:
  assumes "fst (calculate_dynamic_price self room_type target_date override_params) = Inr p"
    and "0 < get_base_rate self room_type"
  shows "price_floor p = 0.7 * get_base_rate self room_type
       \<and> price_ceiling p = 1.5 * get_base_rate self room_type
       \<and> (\<exists>c. price_floor p \<le> c \<and> c \<le> price_ceiling p \<and> final_price p = py_round c 2)
       \<and> price_floor p - 0.005 \<le> final_price p
       \<and> final_price p \<le> price_ceiling p + 0.005"
proof -
  from calculate_dynamic_price_result [OF assms(1)]
  obtain raw where fl: "price_floor p = get_base_rate self room_type * 0.7"
    and ce: "price_ceiling p = get_base_rate self room_type * 1.5"
    and fp: "final_price p = py_round (clip raw (price_floor p) (price_ceiling p)) 2"
    by blast
  define c where "c = clip raw (price_floor p) (price_ceiling p)"
  have "price_floor p \<le> price_ceiling p"
    using assms(2) fl ce by simp
  then have cb: "price_floor p \<le> c \<and> c \<le> price_ceiling p"
    unfolding c_def by (rule clip_bounds)
  have close: "\<bar>py_round c 2 - c\<bar> \<le> 0.005"
    by (rule py_round_2_close)
  have fpc: "final_price p = py_round c 2"
    using fp by (simp add: c_def)
  have "price_floor p - 0.005 \<le> final_price p" "final_price p \<le> price_ceiling p + 0.005"
    using cb close fpc by (simp_all add: abs_if split: if_splits)
  then show ?thesis
    using fl ce cb fpc by auto
qed

text \<open>
  C1 requires \<open>floor \<le> final_price \<le> ceiling\<close> of the price that
  \<^verbatim>\<open>calculate_dynamic_price\<close> returns, with the floor 0.7 times the base rate. The code
  applies \<^verbatim>\<open>np.clip\<close> and rounds the clipped price afterwards, which breaks the bound it
  has just enforced: for the category with the base rate 100.02 the floor is 70.014, the
  raw price is clipped up to this floor, and the price returned is its rounding 70.01,
  below the floor.
\<close>

theorem C1_price_below_floor:
  "fst (calculate_dynamic_price (PricingEngine_init rounding_session) ''Deluxe'' 738886 None)
     = Inr rounding_price
   \<and> price_floor rounding_price = 0.7 * p_base_rate rounding_price
   \<and> clip (raw_price_formula 100.02 0.3 0.25 0.02 1 0.75 0 0.5 1 0)
        (price_floor rounding_price) (price_ceiling rounding_price)
       = price_floor rounding_price
   \<and> final_price rounding_price = py_round (price_floor rounding_price) 2
   \<and> \<not> (price_floor rounding_price \<le> final_price rounding_price)"
proof -
  have "price_floor rounding_price = 0.7 * p_base_rate rounding_price"
    by (simp add: rounding_price_def)
  moreover have "clip (raw_price_formula 100.02 0.3 0.25 0.02 1 0.75 0 0.5 1 0)
        (price_floor rounding_price) (price_ceiling rounding_price)
       = price_floor rounding_price"
    by (simp add: rounding_price_def clip_def raw_price_formula_def price_demand_factor_def
        price_competitor_factor_def price_event_factor_def price_time_discount_factor_def)
  moreover have "final_price rounding_price = py_round (price_floor rounding_price) 2"
    by (simp add: rounding_price_def py_round_def rint_def Let_def)
  moreover have "\<not> (price_floor rounding_price \<le> final_price rounding_price)"
    by (simp add: rounding_price_def)
  ultimately show ?thesis
    using rounding_price_computed by simp
qed

subsection \<open>C5: a category that the store does not know\<close>

text \<open>
  C5, as stated, fails: for a category without a row in \<^verbatim>\<open>room_types\<close> the lookup
  \<^verbatim>\<open>get_base_rate\<close> returns the default 300 and the pricing call returns a price.
\<close>

theorem C5_unknown_category_priced:
  "get_base_rate (PricingEngine_init example_session) ''Penthouse'' = 300
   \<and> fst (calculate_dynamic_price (PricingEngine_init example_session) ''Penthouse''
            738896 None) = Inr penthouse_price"
proof -
  have "get_base_rate (PricingEngine_init example_session) ''Penthouse'' = 300"
    by (simp add: pricing_defs example_session_def)
  then show ?thesis
    using penthouse_price_computed by simp
qed

lemma calculate_dynamic_price_isl:
  "isl (fst (calculate_dynamic_price self room_type target_date override_params)) \<longleftrightarrow>
     isl (calculate_time_factor self target_date)
     \<or> get_forecasted_demand self room_type target_date = None
     \<or> get_event_multiplier self target_date = None
     \<or> get_competitor_index self room_type target_date = None"
  by (auto simp: calculate_dynamic_price_def Let_def split: sum.splits option.splits prod.splits)

lemma get_competitor_index_finite:
  "get_base_rate self room_type \<noteq> 0
     \<Longrightarrow> get_competitor_index self room_type target_date \<noteq> None"
  unfolding get_competitor_index_def Let_def by (simp split: if_splits)

text \<open>
  C5, amended: for every category name unknown to the store, \<^verbatim>\<open>get_base_rate\<close> returns
  the default base rate 300, the floor and ceiling are 210 and 450, and every record that
  a pricing call returns for the category carries the base rate 300. No error is raised
  for the missing category: the pricing call fails only when the time factor raises (a
  maximal lead time of zero) or when the stored forecast or the event multiplier of the
  date is NULL.
\<close>

theorem C5_unknown_category_default:
  assumes "room_type \<notin> rt_name ` set (room_types (pe_session self))"
  shows "get_base_rate self room_type = 300
       \<and> get_floor_ceiling self room_type = (210, 450)
       \<and> (\<forall>p. fst (calculate_dynamic_price self room_type target_date override_params) = Inr p
              \<longrightarrow> p_base_rate p = 300)
       \<and> (isl (fst (calculate_dynamic_price self room_type target_date override_params)) \<longleftrightarrow>
            isl (calculate_time_factor self target_date)
            \<or> get_forecasted_demand self room_type target_date = None
            \<or> get_event_multiplier self target_date = None)"
proof -
  have "filter (\<lambda>r. rt_name r = room_type) (room_types (pe_session self)) = []"
    using assms by (auto simp: filter_empty_conv)
  then have b: "get_base_rate self room_type = 300"
    by (simp add: get_base_rate_def first_def)
  then have fc: "get_floor_ceiling self room_type = (210, 450)"
    by (simp add: get_floor_ceiling_def)
  have p: "p_base_rate p = 300"
    if "fst (calculate_dynamic_price self room_type target_date override_params) = Inr p" for p
    using calculate_dynamic_price_result [OF that] b by simp
  have "get_competitor_index self room_type target_date \<noteq> None"
    by (rule get_competitor_index_finite) (simp add: b)
  then have "isl (fst (calculate_dynamic_price self room_type target_date override_params))
         \<longleftrightarrow>
            isl (calculate_time_factor self target_date)
            \<or> get_forecasted_demand self room_type target_date = None
            \<or> get_event_multiplier self target_date = None"
    by (auto simp: calculate_dynamic_price_isl)
  then show ?thesis
    using b fc p by blast
qed

theorem C5_unknown_category_default_witness:
  "''Penthouse'' \<notin> rt_name ` set (room_types (pe_session (PricingEngine_init example_session)))
   \<and> get_base_rate (PricingEngine_init example_session) ''Penthouse'' = 300
   \<and> get_floor_ceiling (PricingEngine_init example_session) ''Penthouse'' = (210, 450)
   \<and> fst (calculate_dynamic_price (PricingEngine_init example_session) ''Penthouse''
            738896 None) = Inr penthouse_price
   \<and> p_base_rate penthouse_price = 300"
proof -
  have h: "''Penthouse'' \<notin> rt_name ` set (room_types (pe_session (PricingEngine_init example_session)))"
    by (simp add: PricingEngine_init_def example_session_def)
  from C5_unknown_category_default [OF h, of 738896 None]
  show ?thesis
    using h penthouse_price_computed by simp
qed

subsection \<open>C7: the price grows with the demand\<close>

text \<open>
  C7, as stated, fails for the raw price: with a caller-supplied \<open>\<beta> = 4\<close> and a competitor
  index of 0.5 the competitor factor is -1, and the raw price falls when the demand rises
  from 0.5 to 0.9.
\<close>

theorem C7_raw_price_not_monotone:
  "(0::real) < 0.3 \<and> (0.5::real) < 0.9
   \<and> \<not> (raw_price_formula 100 0.3 4 0.02 1 0.75 0.5 0.5 1 0
          < raw_price_formula 100 0.3 4 0.02 1 0.75 0.9 0.5 1 0)"
  by (simp add: raw_price_formula_def price_demand_factor_def price_competitor_factor_def
      price_event_factor_def price_time_discount_factor_def)

text \<open>
  C7, amended: with \<open>\<alpha> > 0\<close> and the other inputs fixed, a greater forecasted demand gives
  a strictly greater demand factor; it gives a strictly greater raw price whenever the
  product of the base rate and the competitor, event and time discount factors is
  positive.
\<close>

theorem C7_demand_monotone:
  "0 < a \<Longrightarrow> d1 < d2 \<Longrightarrow>
     price_demand_factor a baseline d1 < price_demand_factor a baseline d2 \<and>
     (0 < base * price_competitor_factor b ci * price_event_factor dl em
            * price_time_discount_factor g tf \<longrightarrow>
      raw_price_formula base a b g dl baseline d1 ci em tf
        < raw_price_formula base a b g dl baseline d2 ci em tf)"
proof (intro conjI impI)
  assume a: "0 < a" and d: "d1 < d2"
  show lt: "price_demand_factor a baseline d1 < price_demand_factor a baseline d2"
    using a d by (simp add: price_demand_factor_def)
  assume pos: "0 < base * price_competitor_factor b ci * price_event_factor dl em
            * price_time_discount_factor g tf"
  define k where "k = base * price_competitor_factor b ci * price_event_factor dl em
            * price_time_discount_factor g tf"
  have "raw_price_formula base a b g dl baseline d1 ci em tf
          = k * price_demand_factor a baseline d1"
    "raw_price_formula base a b g dl baseline d2 ci em tf
          = k * price_demand_factor a baseline d2"
    by (simp_all add: raw_price_formula_def k_def)
  moreover have "k * price_demand_factor a baseline d1 < k * price_demand_factor a baseline d2"
    using pos lt unfolding k_def [symmetric] by simp
  ultimately show "raw_price_formula base a b g dl baseline d1 ci em tf
        < raw_price_formula base a b g dl baseline d2 ci em tf"
    by simp
qed

theorem C7_demand_monotone_witness:
  "(0::real) < 0.3 \<and> (0.5::real) < 0.9
   \<and> price_demand_factor 0.3 0.75 0.5 < price_demand_factor 0.3 0.75 0.9
   \<and> 0 < 280 * price_competitor_factor 0.25 1 * price_event_factor 1 1.25
            * price_time_discount_factor 0.02 0
   \<and> raw_price_formula 280 0.3 0.25 0.02 1 0.75 0.5 1 1.25 0
       < raw_price_formula 280 0.3 0.25 0.02 1 0.75 0.9 1 1.25 0"
proof -
  have h1: "(0::real) < 0.3" and h2: "(0.5::real) < 0.9"
    by simp_all
  have h3: "0 < 280 * price_competitor_factor 0.25 1 * price_event_factor 1 1.25
            * price_time_discount_factor 0.02 0"
    by (simp add: price_competitor_factor_def price_event_factor_def
        price_time_discount_factor_def)
  from C7_demand_monotone [OF h1 h2, where baseline = "0.75" and base = 280 and b = "0.25"
      and ci = 1 and dl = 1 and em = "1.25" and g = "0.02" and tf = 0]
  show ?thesis
    using h1 h2 h3 by blast
qed

subsection \<open>C9: the overrides of a call\<close>

lemma update_coefficients_fields [simp]:
  "pe_session (update_coefficients self a b g dl) = pe_session self"
  "baseline_demand (update_coefficients self a b g dl) = baseline_demand self"
  "max_lead_time (update_coefficients self a b g dl) = max_lead_time self"
  "alpha (update_coefficients self a b g dl) = (case a of Some v \<Rightarrow> v | None \<Rightarrow> alpha self)"
  "beta (update_coefficients self a b g dl) = (case b of Some v \<Rightarrow> v | None \<Rightarrow> beta self)"
  "gamma (update_coefficients self a b g dl) = (case g of Some v \<Rightarrow> v | None \<Rightarrow> gamma self)"
  "delta (update_coefficients self a b g dl) = (case dl of Some v \<Rightarrow> v | None \<Rightarrow> delta self)"
  by (simp_all add: update_coefficients_def Let_def split: option.splits)

lemma calculate_dynamic_price_engine:
  "snd (calculate_dynamic_price self room_type target_date override_params) = self"
  by (simp add: calculate_dynamic_price_def Let_def
      split: sum.splits option.splits prod.splits)

lemma calculate_dynamic_price_depends:
  assumes "pe_session e1 = pe_session e2" "baseline_demand e1 = baseline_demand e2"
    "max_lead_time e1 = max_lead_time e2"
    "coefficient ov1 ''alpha'' (alpha e1) = coefficient ov2 ''alpha'' (alpha e2)"
    "coefficient ov1 ''beta'' (beta e1) = coefficient ov2 ''beta'' (beta e2)"
    "coefficient ov1 ''gamma'' (gamma e1) = coefficient ov2 ''gamma'' (gamma e2)"
    "coefficient ov1 ''delta'' (delta e1) = coefficient ov2 ''delta'' (delta e2)"
  shows "fst (calculate_dynamic_price e1 rt d ov1) = fst (calculate_dynamic_price e2 rt d ov2)"
proof -
  have b: "get_base_rate e1 rt = get_base_rate e2 rt"
    using assms(1) by (simp add: get_base_rate_def)
  have fb: "calculate_demand_fallback e1 rt d = calculate_demand_fallback e2 rt d"
    using assms(1,2) by (simp add: calculate_demand_fallback_def)
  have f: "get_forecasted_demand e1 rt d = get_forecasted_demand e2 rt d"
    using assms(1) by (simp add: get_forecasted_demand_def fb split: option.splits)
  have c: "get_competitor_index e1 rt d = get_competitor_index e2 rt d"
    using assms(1) b by (simp add: get_competitor_index_def)
  have e: "get_event_multiplier e1 d = get_event_multiplier e2 d"
    using assms(1) by (simp add: get_event_multiplier_def)
  have t: "calculate_time_factor e1 d = calculate_time_factor e2 d"
    using assms(1,3) by (simp add: calculate_time_factor_def)
  have fc: "get_floor_ceiling e1 rt = get_floor_ceiling e2 rt"
    using b by (simp add: get_floor_ceiling_def)
  show ?thesis
    unfolding calculate_dynamic_price_def Let_def b f c e t fc assms(2,4,5,6,7)
    by (simp split: sum.splits option.splits prod.splits)
qed

text \<open>
  C9: a call of \<^verbatim>\<open>calculate_dynamic_price\<close> with coefficient overrides returns the engine
  as it was (the stored coefficients, the baseline, the maximal lead time and the
  session), and its result is the one that a call without overrides gives on an engine
  whose coefficients \<^verbatim>\<open>update_coefficients\<close> has set to the overriding values: the
  overrides act on the result of that call only.
\<close>

theorem C9_overrides_leave_engine:
  "snd (calculate_dynamic_price self room_type target_date override_params) = self
   \<and> fst (calculate_dynamic_price self room_type target_date override_params)
     = fst (calculate_dynamic_price
              (update_coefficients self
                 (Option.bind override_params (\<lambda>m. m ''alpha''))
                 (Option.bind override_params (\<lambda>m. m ''beta''))
                 (Option.bind override_params (\<lambda>m. m ''gamma''))
                 (Option.bind override_params (\<lambda>m. m ''delta'')))
              room_type target_date None)"
proof
  show "snd (calculate_dynamic_price self room_type target_date override_params) = self"
    by (rule calculate_dynamic_price_engine)
  show "fst (calculate_dynamic_price self room_type target_date override_params)
     = fst (calculate_dynamic_price
              (update_coefficients self
                 (Option.bind override_params (\<lambda>m. m ''alpha''))
                 (Option.bind override_params (\<lambda>m. m ''beta''))
                 (Option.bind override_params (\<lambda>m. m ''gamma''))
                 (Option.bind override_params (\<lambda>m. m ''delta'')))
              room_type target_date None)"
    by (rule calculate_dynamic_price_depends)
      (simp_all add: coefficient_def split: option.splits)
qed

section \<open>Properties of the forecasting engine\<close>

subsection \<open>The occupancy series\<close>

lemma ForecastingEngine_init_fields:
  "fe_session (ForecastingEngine_init s) = s"
  "lookback_days (ForecastingEngine_init s) = 90"
  "smoothing_alpha (ForecastingEngine_init s) = 0.3"
  by (simp_all add: ForecastingEngine_init_def)

lemma occupancy_loop_eq:
  "occupancy_loop occ total_rooms cur e acc =
     acc @ map (\<lambda>d. \<lparr>dp_date = d,
                     occupancy = real (case occ d of Some c \<Rightarrow> c | None \<Rightarrow> 0) / real (max total_rooms 1),
                     dp_bookings = (case occ d of Some c \<Rightarrow> c | None \<Rightarrow> 0)\<rparr>) [cur..e]"
proof (induction occ total_rooms cur e acc rule: occupancy_loop.induct)
  case (1 occ total_rooms cur e acc)
  show ?case
  proof (cases "cur \<le> e")
    case True
    then have u: "[cur..e] = cur # [cur + 1..e]" by (simp add: upto_rec1)
    show ?thesis
      using True 1 by (subst occupancy_loop.simps) (simp add: u Let_def)
  next
    case False
    then show ?thesis by (subst occupancy_loop.simps) simp
  qed
qed

lemma count_arrivals_count:
  "(case count_arrivals bs m d of Some c \<Rightarrow> c | None \<Rightarrow> 0) =
     (case m d of Some c \<Rightarrow> c | None \<Rightarrow> 0) + length (filter (\<lambda>b. checkin b = d) bs)"
  by (induction bs arbitrary: m) (auto simp: Let_def split: option.splits)

lemma get_historical_bookings_eq:
  "get_historical_bookings self rt =
     map (\<lambda>d. \<lparr>dp_date = d,
               occupancy = real (length (filter (\<lambda>b. bk_room_type b = rt \<and> checkin b = d)
                                   (bookings (fe_session self))))
                           / real (max (length (filter (\<lambda>i. inv_room_type i = rt)
                                   (inventory (fe_session self)))) 1),
               dp_bookings = length (filter (\<lambda>b. bk_room_type b = rt \<and> checkin b = d)
                                   (bookings (fe_session self)))\<rparr>)
       [today (fe_session self) - lookback_days self .. today (fe_session self)]"
proof -
  have "length (filter (\<lambda>b. checkin b = d)
          (filter (\<lambda>b. bk_room_type b = rt \<and> today (fe_session self) - lookback_days self \<le> checkin b
                      \<and> checkin b \<le> today (fe_session self)) (bookings (fe_session self))))
      = length (filter (\<lambda>b. bk_room_type b = rt \<and> checkin b = d) (bookings (fe_session self)))"
    if "d \<in> set [today (fe_session self) - lookback_days self .. today (fe_session self)]" for d
    unfolding filter_filter
    by (rule arg_cong [where f = length], rule filter_cong) (use that in auto)
  then show ?thesis
    unfolding get_historical_bookings_def Let_def occupancy_loop_eq
    by (simp add: count_arrivals_count)
qed

lemma length_get_historical_bookings:
  "length (get_historical_bookings self rt) = nat (lookback_days self + 1)"
  by (simp add: get_historical_bookings_eq)

text \<open>
  C10: with the lookback of 90 days that the constructor sets, the occupancy series of
  every category in every session has 91 entries, one for each day from 90 days ago to
  today in order; the entry of a day holds the number of the category's bookings that
  arrive that day and that number divided by the inventory count (or by 1), which is 0.0
  for a day without bookings. Its length is therefore never below 14.
\<close>

theorem C10_occupancy_series:
  assumes "lookback_days self = 90"
  shows "length (get_historical_bookings self rt) = 91
   \<and> map dp_date (get_historical_bookings self rt)
       = [today (fe_session self) - 90 .. today (fe_session self)]
   \<and> (\<forall>p \<in> set (get_historical_bookings self rt).
        dp_bookings p = length (filter (\<lambda>b. bk_room_type b = rt \<and> checkin b = dp_date p)
                                  (bookings (fe_session self)))
        \<and> occupancy p = real (dp_bookings p)
            / real (max (length (filter (\<lambda>i. inv_room_type i = rt)
                                   (inventory (fe_session self)))) 1)
        \<and> (dp_bookings p = 0 \<longrightarrow> occupancy p = 0))
   \<and> \<not> length (get_historical_bookings self rt) < 14"
  using assms by (auto simp: get_historical_bookings_eq comp_def map_idI)

lemma history_session_today: "today history_session = 738886"
  by (simp add: today_def date_of_def history_session_def)

theorem C10_occupancy_series_witness:
  "lookback_days (ForecastingEngine_init history_session) = 90
   \<and> length (get_historical_bookings (ForecastingEngine_init history_session) ''Deluxe'') = 91
   \<and> map dp_date (get_historical_bookings (ForecastingEngine_init history_session) ''Deluxe'')
       = [738796 .. 738886]
   \<and> \<lparr>dp_date = 738885, occupancy = 0, dp_bookings = 0\<rparr>
       \<in> set (get_historical_bookings (ForecastingEngine_init history_session) ''Deluxe'')
   \<and> \<lparr>dp_date = 738886, occupancy = 1 / 2, dp_bookings = 1\<rparr>
       \<in> set (get_historical_bookings (ForecastingEngine_init history_session) ''Deluxe'')"
proof -
  have h: "lookback_days (ForecastingEngine_init history_session) = 90"
    by (simp add: ForecastingEngine_init_def)
  have s: "fe_session (ForecastingEngine_init history_session) = history_session"
    by (simp add: ForecastingEngine_init_def)
  have m1: "\<lparr>dp_date = 738885, occupancy = 0, dp_bookings = 0\<rparr>
       \<in> set (get_historical_bookings (ForecastingEngine_init history_session) ''Deluxe'')"
    unfolding get_historical_bookings_eq set_map s h history_session_today
    by (rule image_eqI [where x = 738885]) (simp_all add: history_session_def)
  have m2: "\<lparr>dp_date = 738886, occupancy = 1 / 2, dp_bookings = 1\<rparr>
       \<in> set (get_historical_bookings (ForecastingEngine_init history_session) ''Deluxe'')"
    unfolding get_historical_bookings_eq set_map s h history_session_today
    by (rule image_eqI [where x = 738886]) (simp_all add: history_session_def)
  from C10_occupancy_series [OF h, of "''Deluxe''"] show ?thesis
    using h m1 m2 by (simp add: s history_session_today)
qed

subsection \<open>When the forecast returns\<close>

lemma get_event_impact_isl:
  "isl (get_event_impact self d) \<longleftrightarrow>
     (\<exists>ev. first (filter (\<lambda>e. ev_date e = d) (event_multipliers (fe_session self))) = Some ev
           \<and> multiplier ev = None)"
  by (auto simp: get_event_impact_def split: option.splits)

lemma calculate_demand_forecast_isl:
  "isl (calculate_demand_forecast self rt d ml) \<longleftrightarrow>
     (14 \<le> length (get_historical_bookings self rt) \<and> isl (get_event_impact self d))"
  by (auto simp: calculate_demand_forecast_def Let_def split: sum.splits)

lemma calculate_demand_forecast_cases:
  assumes "calculate_demand_forecast self rt d ml = Inr f"
  shows "(length (get_historical_bookings self rt) < 14 \<and> f = fallback_forecast self rt d)
       \<or> (14 \<le> length (get_historical_bookings self rt)
          \<and> (\<exists>x. forecasted_demand f = clip x 0 1)
          \<and> model_used f = (if ml \<and> 30 \<le> length (get_historical_bookings self rt)
                             then ''ml'' else ''exponential_smoothing''))"
  using assms
  by (auto simp: calculate_demand_forecast_def Let_def split: sum.splits if_splits)

lemma forecast_bounds:
  assumes "calculate_demand_forecast self rt d ml = Inr f"
  shows "0 \<le> forecasted_demand f \<and> forecasted_demand f \<le> 1"
  using calculate_demand_forecast_cases [OF assms]
  by (auto simp: fallback_forecast_def clip_def Let_def)

lemma zero_inventory_event_impact:
  "\<not> isl (get_event_impact (ForecastingEngine_init zero_inventory_session) 738891)"
  by (simp add: get_event_impact_def first_def ForecastingEngine_init_def
      history_session_def zero_inventory_session_def)



subsection \<open>The forecast of the concrete session\<close>

lemmas forecasting_defs =
  calculate_demand_forecast_def calculate_seasonality_def calculate_trend_def
  calculate_dow_factor_def calculate_lead_time_impact_def get_competitor_impact_def
  get_event_impact_def exponential_smoothing_forecast_def calculate_confidence_def
  linear_regression_slope_def mean_def var_def clip_def first_def today_def date_of_def
  weekday_def month_def day_def ord2ymd_def days_before_month_def days_in_month_def Let_def

lemma group_occupancy_eq:
  "group_occupancy key xs g k =
     (if filter (\<lambda>dp. key (dp_date dp) = k) xs = [] then g k
      else Some ((case g k of Some l \<Rightarrow> l | None \<Rightarrow> [])
                 @ map occupancy (filter (\<lambda>dp. key (dp_date dp) = k) xs)))"
  by (induction xs arbitrary: g) (auto simp: Let_def split: option.splits)

lemma group_occupancy_empty:
  "group_occupancy key xs Map.empty k =
     (if filter (\<lambda>dp. key (dp_date dp) = k) xs = [] then None
      else Some (map occupancy (filter (\<lambda>dp. key (dp_date dp) = k) xs)))"
  by (simp add: group_occupancy_eq)

lemma history_series:
  "get_historical_bookings (ForecastingEngine_init history_session) ''Deluxe'' =
     map (\<lambda>d. \<lparr>dp_date = d,
               occupancy = (if d = 738886 then 1 / 2 else if d = 738880 then 1 else 0),
               dp_bookings = (if d = 738886 then 1 else if d = 738880 then 2 else 0)\<rparr>)
       [738796..738886]"
  unfolding get_historical_bookings_eq
  by (simp add: ForecastingEngine_init_fields history_session_today)
     (simp add: history_session_def)

lemma monday_forecast_computed:
  "calculate_demand_forecast (ForecastingEngine_init history_session) ''Deluxe'' 738893 False
     = Inr monday_forecast"
  unfolding calculate_demand_forecast_def history_series calculate_seasonality_def
    calculate_dow_factor_def group_occupancy_empty
  by (simp add: forecasting_defs monday_forecast_def ForecastingEngine_init_def
      history_session_def)

lemma ml_without_forest:
  assumes "random_forest (fe_session self) = no_forest"
  shows "ml_demand_forecast self rt d h =
     (if length h < 30 then 0.75 else exponential_smoothing_forecast self h)"
  using assms by (auto simp: ml_demand_forecast_def no_forest_def Let_def)

lemma forecast_without_forest:
  assumes "random_forest (fe_session self) = no_forest"
    and "30 \<le> length (get_historical_bookings self rt)"
    and "calculate_demand_forecast self rt d False = Inr f"
  shows "calculate_demand_forecast self rt d True = Inr (f\<lparr>model_used := ''ml''\<rparr>)"
  using assms
  by (auto simp: calculate_demand_forecast_def ml_without_forest Let_def split: sum.splits)

lemma monday_ml_forecast_computed:
  "calculate_demand_forecast (ForecastingEngine_init history_session) ''Deluxe'' 738893 True
     = Inr (monday_forecast\<lparr>model_used := ''ml''\<rparr>)"
proof (rule forecast_without_forest)
  show "random_forest (fe_session (ForecastingEngine_init history_session)) = no_forest"
    by (simp add: ForecastingEngine_init_def history_session_def)
  show "30 \<le> length (get_historical_bookings (ForecastingEngine_init history_session) ''Deluxe'')"
    by (simp add: length_get_historical_bookings ForecastingEngine_init_fields)
  show "calculate_demand_forecast (ForecastingEngine_init history_session) ''Deluxe'' 738893 False
     = Inr monday_forecast"
    by (rule monday_forecast_computed)
qed

subsection \<open>C3 and C2: the fallback and the bounds of the demand\<close>



text \<open>
  C2: the forecasted demand of every record that the forecast returns lies between 0.0
  and 1.0, on the normal path and on the fallback path, whatever the regressor predicts.
\<close>

theorem C2_forecasted_demand_bounded:
  assumes "calculate_demand_forecast self rt d ml = Inr f"
  shows "0 \<le> forecasted_demand f \<and> forecasted_demand f \<le> 1"
  using assms by (rule forecast_bounds)

theorem C2_forecasted_demand_bounded_witness:
  "calculate_demand_forecast (ForecastingEngine_init history_session) ''Deluxe'' 738893 False
     = Inr monday_forecast
   \<and> 0 \<le> forecasted_demand monday_forecast
   \<and> forecasted_demand monday_forecast \<le> 1"
  using C2_forecasted_demand_bounded [OF monday_forecast_computed] monday_forecast_computed
  by simp

subsection \<open>C4: a category without inventory\<close>

lemma update_forecast_accuracy_isl:
  "isl (update_forecast_accuracy self rt d) \<longleftrightarrow>
     (\<exists>fr. latest_forecast (filter (\<lambda>f. fd_room_type f = rt \<and> fd_date f = d)
                               (forecast_data (fe_session self))) = Some fr
          \<and> fd_forecasted_demand fr = None)"
  by (auto simp: update_forecast_accuracy_def Let_def split: option.splits)

lemma update_forecast_accuracy_occupancy:
  assumes "update_forecast_accuracy self rt d = Inr (Some a)"
  shows "actual_occupancy a =
     real (length (filter (\<lambda>b. bk_room_type b = rt \<and> checkin b = d) (bookings (fe_session self))))
     / real (max (length (filter (\<lambda>i. inv_room_type i = rt) (inventory (fe_session self)))) 1)"
  using assms by (auto simp: update_forecast_accuracy_def Let_def split: option.splits)

lemma zero_inventory_accuracy_computed:
  "update_forecast_accuracy (ForecastingEngine_init zero_inventory_session) ''Deluxe'' 738880
     = Inr (Some zero_inventory_accuracy)"
  by (simp add: update_forecast_accuracy_def Let_def ForecastingEngine_init_def
      zero_inventory_session_def history_session_def zero_inventory_accuracy_def)

lemma zero_inventory_no_rooms:
  "filter (\<lambda>i. inv_room_type i = ''Deluxe'')
     (inventory (fe_session (ForecastingEngine_init zero_inventory_session))) = []"
  by (simp add: ForecastingEngine_init_def zero_inventory_session_def)

text \<open>
  C4, as stated, fails: in a session without any inventory row for the category,
  accuracy tracking returns a report (with a realised occupancy of 2, the two bookings
  divided by 1), the forecast returns a record and the occupancy series has its 91
  entries. No call fails.
\<close>

theorem C4_zero_inventory_returns:
  "filter (\<lambda>i. inv_room_type i = ''Deluxe'')
     (inventory (fe_session (ForecastingEngine_init zero_inventory_session))) = []
   \<and> update_forecast_accuracy (ForecastingEngine_init zero_inventory_session) ''Deluxe'' 738880
       = Inr (Some zero_inventory_accuracy)
   \<and> \<not> isl (calculate_demand_forecast (ForecastingEngine_init zero_inventory_session)
               ''Deluxe'' 738891 True)
   \<and> length (get_historical_bookings (ForecastingEngine_init zero_inventory_session) ''Deluxe'')
       = 91"
proof -
  have "\<not> isl (calculate_demand_forecast (ForecastingEngine_init zero_inventory_session)
               ''Deluxe'' 738891 True)"
    by (simp add: calculate_demand_forecast_isl zero_inventory_event_impact)
  moreover have "length (get_historical_bookings (ForecastingEngine_init zero_inventory_session)
       ''Deluxe'') = 91"
    by (simp add: length_get_historical_bookings ForecastingEngine_init_fields)
  ultimately show ?thesis
    using zero_inventory_accuracy_computed zero_inventory_no_rooms by blast
qed

text \<open>
  C4, amended: for a category whose inventory count is zero the occupancy is computed
  with the denominator \<^verbatim>\<open>max(count, 1) = 1\<close>: every entry of the occupancy series has
  its booking count as occupancy, and accuracy tracking reports the booking count of the
  date as realised occupancy. Accuracy tracking raises exactly when the stored forecast
  holds NULL, and the forecast raises exactly when the series has at least 14 points and
  the event of the date holds NULL: neither fails for the missing inventory.
\<close>

theorem C4_zero_inventory_denominator:
  assumes "filter (\<lambda>i. inv_room_type i = rt) (inventory (fe_session self)) = []"
  shows "(\<forall>p \<in> set (get_historical_bookings self rt). occupancy p = real (dp_bookings p))
   \<and> (\<forall>a. update_forecast_accuracy self rt d = Inr (Some a) \<longrightarrow>
          actual_occupancy a = real (length (filter (\<lambda>b. bk_room_type b = rt \<and> checkin b = d)
                                       (bookings (fe_session self)))))
   \<and> (isl (update_forecast_accuracy self rt d) \<longleftrightarrow>
        (\<exists>fr. latest_forecast (filter (\<lambda>f. fd_room_type f = rt \<and> fd_date f = d)
                                  (forecast_data (fe_session self))) = Some fr
             \<and> fd_forecasted_demand fr = None))
   \<and> (isl (calculate_demand_forecast self rt d ml) \<longleftrightarrow>
        (14 \<le> length (get_historical_bookings self rt) \<and>
         (\<exists>ev. first (filter (\<lambda>e. ev_date e = d) (event_multipliers (fe_session self))) = Some ev
              \<and> multiplier ev = None)))"
proof (intro conjI)
  show "\<forall>p \<in> set (get_historical_bookings self rt). occupancy p = real (dp_bookings p)"
    using assms by (auto simp: get_historical_bookings_eq)
  show "\<forall>a. update_forecast_accuracy self rt d = Inr (Some a) \<longrightarrow>
          actual_occupancy a = real (length (filter (\<lambda>b. bk_room_type b = rt \<and> checkin b = d)
                                       (bookings (fe_session self))))"
    using assms by (auto dest!: update_forecast_accuracy_occupancy)
  show "isl (update_forecast_accuracy self rt d) \<longleftrightarrow>
        (\<exists>fr. latest_forecast (filter (\<lambda>f. fd_room_type f = rt \<and> fd_date f = d)
                                  (forecast_data (fe_session self))) = Some fr
             \<and> fd_forecasted_demand fr = None)"
    by (rule update_forecast_accuracy_isl)
  show "isl (calculate_demand_forecast self rt d ml) \<longleftrightarrow>
        (14 \<le> length (get_historical_bookings self rt) \<and>
         (\<exists>ev. first (filter (\<lambda>e. ev_date e = d) (event_multipliers (fe_session self))) = Some ev
              \<and> multiplier ev = None))"
    by (simp add: calculate_demand_forecast_isl get_event_impact_isl)
qed

theorem C4_zero_inventory_denominator_witness:
  "filter (\<lambda>i. inv_room_type i = ''Deluxe'')
     (inventory (fe_session (ForecastingEngine_init zero_inventory_session))) = []
   \<and> update_forecast_accuracy (ForecastingEngine_init zero_inventory_session) ''Deluxe'' 738880
       = Inr (Some zero_inventory_accuracy)
   \<and> actual_occupancy zero_inventory_accuracy = 2
   \<and> \<not> isl (update_forecast_accuracy (ForecastingEngine_init zero_inventory_session)
               ''Deluxe'' 738880)
   \<and> \<not> isl (calculate_demand_forecast (ForecastingEngine_init zero_inventory_session)
               ''Deluxe'' 738880 False)"
proof -
  have b: "length (filter (\<lambda>b. bk_room_type b = ''Deluxe'' \<and> checkin b = 738880)
      (bookings (fe_session (ForecastingEngine_init zero_inventory_session)))) = 2"
    by (simp add: ForecastingEngine_init_def zero_inventory_session_def history_session_def)
  have e: "\<not> (\<exists>ev. first (filter (\<lambda>e. ev_date e = 738880)
             (event_multipliers (fe_session (ForecastingEngine_init zero_inventory_session))))
               = Some ev \<and> multiplier ev = None)"
    by (simp add: first_def ForecastingEngine_init_def zero_inventory_session_def
        history_session_def)
  from C4_zero_inventory_denominator [OF zero_inventory_no_rooms, of 738880 False] show ?thesis
    using zero_inventory_no_rooms zero_inventory_accuracy_computed b e by simp
qed

subsection \<open>C8: the scenarios\<close>

lemma scenario_loop_default:
  "scenario_loop self rt b default_scenarios None [] =
     Inr [(''low'', \<lparr>demand = min (b * 0.8) 1.0, probability = 0.2,
                     description = low_description,
                     sc_revenue_impact = calculate_revenue_impact self rt (b * 0.8) b\<rparr>),
          (''base'', \<lparr>demand = min b 1.0, probability = 0.6,
                     description = base_description,
                     sc_revenue_impact = calculate_revenue_impact self rt b b\<rparr>),
          (''high'', \<lparr>demand = min (b * 1.3) 1.0, probability = 0.2,
                     description = high_description,
                     sc_revenue_impact = calculate_revenue_impact self rt (b * 1.3) b\<rparr>)]"
  by (simp add: default_scenarios_def Let_def)

text \<open>
  C8: for every base forecast that the forecast operation returns, scenario generation
  with the default scenario names returns exactly the scenarios \<open>low\<close>, \<open>base\<close> and
  \<open>high\<close>, in this order: \<open>low\<close> with the base demand times 0.8 and probability 0.2,
  \<open>base\<close> with the base demand and probability 0.6, \<open>high\<close> with the base demand times
  1.3 capped at 1.0 and probability 0.2; the three probabilities sum to 1.
\<close>

theorem C8_default_scenarios:
  assumes "calculate_demand_forecast self rt d True = Inr fc"
  shows "\<exists>r. generate_demand_scenarios self rt d default_scenarios = Inr r
     \<and> base_forecast r = forecasted_demand fc
     \<and> map fst (scenarios r) = [''low'', ''base'', ''high'']
     \<and> map (demand \<circ> snd) (scenarios r)
         = [forecasted_demand fc * 0.8, forecasted_demand fc, min (forecasted_demand fc * 1.3) 1.0]
     \<and> map (probability \<circ> snd) (scenarios r) = [0.2, 0.6, 0.2]
     \<and> sum_list (map (probability \<circ> snd) (scenarios r)) = 1"
proof -
  have b: "0 \<le> forecasted_demand fc \<and> forecasted_demand fc \<le> 1"
    using assms by (rule forecast_bounds)
  then have m: "min (forecasted_demand fc * 0.8) 1 = forecasted_demand fc * 0.8"
    "min (forecasted_demand fc) 1 = forecasted_demand fc"
    by simp_all
  show ?thesis
    using assms m by (simp add: generate_demand_scenarios_def scenario_loop_default Let_def)
qed

lemma monday_scenarios_computed:
  "generate_demand_scenarios (ForecastingEngine_init history_session) ''Deluxe'' 738893
     default_scenarios = Inr monday_scenarios"
  unfolding generate_demand_scenarios_def monday_ml_forecast_computed
  by (simp add: scenario_loop_default monday_forecast_def monday_scenarios_def
      calculate_revenue_impact_def first_def Let_def ForecastingEngine_init_def
      history_session_def)

theorem C8_default_scenarios_witness:
  "calculate_demand_forecast (ForecastingEngine_init history_session) ''Deluxe'' 738893 True
     = Inr (monday_forecast\<lparr>model_used := ''ml''\<rparr>)
   \<and> generate_demand_scenarios (ForecastingEngine_init history_session) ''Deluxe'' 738893
         default_scenarios = Inr monday_scenarios
   \<and> map fst (scenarios monday_scenarios) = [''low'', ''base'', ''high'']
   \<and> map (demand \<circ> snd) (scenarios monday_scenarios) = [0.8, 1, 1]
   \<and> map (probability \<circ> snd) (scenarios monday_scenarios) = [0.2, 0.6, 0.2]
   \<and> sum_list (map (probability \<circ> snd) (scenarios monday_scenarios)) = 1"
proof -
  from C8_default_scenarios [OF monday_ml_forecast_computed]
  obtain r where
    r: "generate_demand_scenarios (ForecastingEngine_init history_session) ''Deluxe'' 738893
          default_scenarios = Inr r"
    and p: "map fst (scenarios r) = [''low'', ''base'', ''high'']"
      "map (probability \<circ> snd) (scenarios r) = [0.2, 0.6, 0.2]"
      "sum_list (map (probability \<circ> snd) (scenarios r)) = 1"
    by auto
  have "r = monday_scenarios"
    using r monday_scenarios_computed by simp
  moreover have "map (demand \<circ> snd) (scenarios monday_scenarios) = [0.8, 1, 1]"
    by (simp add: monday_scenarios_def)
  ultimately show ?thesis
    using p monday_ml_forecast_computed monday_scenarios_computed by simp
qed

subsection \<open>C6: the competitor factor of the forecast\<close>

text \<open>
  C6, as stated, fails: the forecast's competitor factor comes from the mean of all
  competitor rows of the date, not from the median of the available ones. With the
  available rates 280, 280 and 100, an unavailable rate of 1600 and a base rate of 280,
  the median of the available rates gives the ratio 1 and the factor 1.0 of the
  specification; their mean, 220, would give 0.95; the code takes the mean of the four
  rates, 565, and returns 1.05.
\<close>

theorem C6_mean_not_median:
  "map cr_rate (filter availability
        (filter (\<lambda>cr. cr_room_type cr = ''Deluxe'' \<and> cr_date cr = 738891)
          (competitor_rates (fe_session (ForecastingEngine_init history_session)))))
     = [280, 280, 100]
   \<and> median [280, 280, 100] / 280 = 1
   \<and> mean [280, 280, 100] / 280 < 0.9
   \<and> spec_competitor_factor (ForecastingEngine_init history_session) ''Deluxe'' 738891 = 1
   \<and> get_competitor_impact (ForecastingEngine_init history_session) ''Deluxe'' 738891 = 1.05"
  by (simp add: spec_competitor_factor_def get_competitor_impact_def median_def mean_def
      first_def Let_def ForecastingEngine_init_def history_session_def)

lemma history_competitor_rates:
  "map cr_rate (filter (\<lambda>cr. cr_room_type cr = ''Deluxe'' \<and> cr_date cr = 738891)
          (competitor_rates (fe_session (ForecastingEngine_init history_session))))
     = [280, 280, 100, 1600]"
  by (simp add: ForecastingEngine_init_def history_session_def)

lemma history_room_type:
  "first (filter (\<lambda>r. rt_name r = ''Deluxe'')
            (room_types (fe_session (ForecastingEngine_init history_session))))
     = Some \<lparr>rt_name = ''Deluxe'', capacity = 2, base_rate = 280\<rparr>"
  by (simp add: ForecastingEngine_init_def history_session_def first_def)

text \<open>
  C6, amended: the forecast's competitor factor is 1.0 when there is no competitor row
  for the category and date, and 1.0 when the category is unknown; otherwise, for a base
  rate other than zero, it is computed from the ratio of the arithmetic mean of all
  competitor rates of the date (available or not) to the base rate: 1.05 when the ratio
  exceeds 1.10, 0.95 when it is below 0.90, otherwise 1.0.
\<close>

theorem C6_competitor_factor_mean:
  assumes "rows = filter (\<lambda>cr. cr_room_type cr = rt \<and> cr_date cr = d)
                    (competitor_rates (fe_session self))"
  shows "(rows = [] \<longrightarrow> get_competitor_impact self rt d = 1.0)
     \<and> (first (filter (\<lambda>r. rt_name r = rt) (room_types (fe_session self))) = None
          \<longrightarrow> get_competitor_impact self rt d = 1.0)
     \<and> (\<forall>r. rows \<noteq> []
            \<and> first (filter (\<lambda>r. rt_name r = rt) (room_types (fe_session self))) = Some r
            \<and> base_rate r \<noteq> 0
          \<longrightarrow> get_competitor_impact self rt d
              = (if mean (map cr_rate rows) / base_rate r > 1.1 then 1.05
                 else if mean (map cr_rate rows) / base_rate r < 0.9 then 0.95
                 else 1.0))"
  using assms by (simp add: get_competitor_impact_def Let_def)

theorem C6_competitor_factor_mean_witness:
  "map cr_rate (filter (\<lambda>cr. cr_room_type cr = ''Deluxe'' \<and> cr_date cr = 738891)
          (competitor_rates (fe_session (ForecastingEngine_init history_session))))
     = [280, 280, 100, 1600]
   \<and> first (filter (\<lambda>r. rt_name r = ''Deluxe'')
            (room_types (fe_session (ForecastingEngine_init history_session))))
     = Some \<lparr>rt_name = ''Deluxe'', capacity = 2, base_rate = 280\<rparr>
   \<and> mean [280, 280, 100, 1600] / 280 = 113 / 56
   \<and> get_competitor_impact (ForecastingEngine_init history_session) ''Deluxe'' 738891 = 1.05"
proof -
  have m: "mean [280, 280, 100, 1600] / 280 = 113 / 56"
    by (simp add: mean_def)
  have ne: "filter (\<lambda>cr. cr_room_type cr = ''Deluxe'' \<and> cr_date cr = 738891)
          (competitor_rates (fe_session (ForecastingEngine_init history_session))) \<noteq> []"
    using history_competitor_rates by auto
  from C6_competitor_factor_mean [OF refl, where self = "ForecastingEngine_init history_session"
      and rt = "''Deluxe''" and d = 738891]
  have "get_competitor_impact (ForecastingEngine_init history_session) ''Deluxe'' 738891
       = (if mean [280, 280, 100, 1600] / 280 > 1.1 then 1.05
          else if mean [280, 280, 100, 1600] / 280 < 0.9 then 0.95 else 1.0)"
    using ne history_room_type history_competitor_rates by simp
  then show ?thesis
    using m history_competitor_rates history_room_type by simp
qed

end
